theory Spec2Isabelle
  imports Main "HOL-Library.Word" "HOL-Library.Finite_Map"
begin

section \<open>Data model of the timetable store\<close>

text \<open>
  The development embeds \<^verbatim>\<open>src/store/timetable.ts\<close> (the zustand store) and the
  \<^verbatim>\<open>handleSave\<close> handler of \<^verbatim>\<open>src/components/teacher-info-popup.tsx\<close>.

  Modelling conventions.
  \<^item> A JavaScript string is its sequence of UTF-16 code units, so \<open>length\<close> is
    JavaScript's \<^verbatim>\<open>.length\<close> and the Korean literals of the source are written as
    code-unit lists.
  \<^item> \<^verbatim>\<open>Record<string, ...>\<close> objects are finite maps over their own properties
    (insertion order is not observed by any operation of the store). They are plain
    objects, so a read \<^verbatim>\<open>o[k]\<close> of a key that is not an own property falls through
    to \<^verbatim>\<open>Object.prototype\<close>; reads are modelled with that fall-through.
  \<^item> \<^verbatim>\<open>T | null\<close> and \<^verbatim>\<open>T | undefined\<close> are \<open>T option\<close>.
  \<^item> The two cookies hold JSON written by the store itself; they are modelled as the
    typed values that \<^verbatim>\<open>JSON.parse\<close> gives back, \<open>None\<close> when the cookie is absent.
  \<^item> The network is a function from the query parameters to a reply. Every asynchronous
    action runs to completion before the next one starts; interleavings of overlapping
    actions are not modelled.
  \<^item> A rejected promise is \<open>Inl\<close> of the thrown value, a fulfilled one \<open>Inr\<close> of the
    result. The field \<open>requests\<close> is a log of the network reads issued so far; it is
    the only component of the state that the source does not have.
\<close>

type_synonym jstring = "16 word list"

definition ascii :: "string \<Rightarrow> jstring" where
  "ascii s = map (\<lambda>c. of_nat (of_char c)) s"

text \<open>Decimal rendering of a number inside a template literal (the HTTP status).\<close>

fun decimal :: "nat \<Rightarrow> jstring" where
  "decimal n = (if n < 10 then [of_nat (48 + n)]
                else decimal (n div 10) @ [of_nat (48 + n mod 10)])"

declare decimal.simps [simp del]

record ClassConfig =
  school :: jstring
  schoolCode :: jstring
  grade :: jstring
  classNo :: jstring
  lunchAfter :: int

record OriginalCell =
  orig_period :: int
  orig_subject :: jstring
  orig_teacher :: jstring

record Cell =
  period :: int
  subject :: jstring
  teacher :: jstring
  replaced :: bool
  original :: "OriginalCell option"

text \<open>
  The grid is typed \<^verbatim>\<open>Array<Array<Cell>>\<close>, but both lookups guard each cell with
  \<^verbatim>\<open>cell?.subject\<close>; a \<open>None\<close> entry is a null cell of the JSON reply.
\<close>

record TimetableData =
  day_time :: "jstring list"
  timetable :: "Cell option list list"
  update_date :: jstring

type_synonym overrides = "(jstring, (jstring, jstring) fmap) fmap"

text \<open>A thrown value: an \<^verbatim>\<open>Error\<close> object with its message, or anything else.\<close>

datatype thrown = ErrorObj jstring | NonError

record request =
  q_grade :: jstring
  q_classno :: jstring
  q_week :: jstring
  q_schoolcode :: jstring

text \<open>
  What \<^verbatim>\<open>fetch\<close> gives: it throws (transport failure), or it answers with a status and
  a body whose \<^verbatim>\<open>json()\<close> either throws or yields the data.
\<close>

datatype reply = Threw thrown | Replied nat "thrown + TimetableData"

type_synonym network = "request \<Rightarrow> reply"

record world =
  classConfig :: ClassConfig
  teacherInfo :: overrides
  tempConfig :: "ClassConfig option"
  timetableData :: "TimetableData option"
  isLoading :: bool
  isWeekChangeLoading :: bool
  error :: "jstring option"
  isNextWeek :: bool
  showConfig :: bool
  cookie_classConfig :: "ClassConfig option"
  cookie_teacherInfo :: "overrides option"
  requests :: "request list"

definition DEFAULT_CONFIG :: ClassConfig where
  "DEFAULT_CONFIG =
     \<lparr> school = [0xBAA9, 0xC6B4, 0xC911, 0xD559, 0xAD50],
       schoolCode = ascii ''7081492'',
       grade = ascii ''3'',
       classNo = ascii ''4'',
       lunchAfter = 4 \<rparr>"

text \<open>The store as \<^verbatim>\<open>create\<close> builds it, before any cookie is written.\<close>

definition initial_world :: world where
  "initial_world =
     \<lparr> classConfig = DEFAULT_CONFIG,
       teacherInfo = fmempty,
       tempConfig = None,
       timetableData = None,
       isLoading = True,
       isWeekChangeLoading = False,
       error = None,
       isNextWeek = False,
       showConfig = False,
       cookie_classConfig = None,
       cookie_teacherInfo = None,
       requests = [] \<rparr>"

section \<open>Error messages\<close>

definition msg_load_failed_prefix :: jstring where
  "msg_load_failed_prefix =
     [0xC2DC, 0xAC04, 0xD45C, 0xB97C, 0x0020, 0xBD88, 0xB7EC, 0xC624, 0xB294, 0x0020,
      0xC911, 0x0020, 0xC624, 0xB958, 0xAC00, 0x0020, 0xBC1C, 0xC0DD, 0xD588, 0xC2B5,
      0xB2C8, 0xB2E4, 0x003A, 0x0020]"

definition msg_load_failed_generic :: jstring where
  "msg_load_failed_generic =
     [0xC2DC, 0xAC04, 0xD45C, 0xB97C, 0x0020, 0xBD88, 0xB7EC, 0xC624, 0xC9C0, 0x0020,
      0xBABB, 0xD588, 0xC2B5, 0xB2C8, 0xB2E4, 0x002E, 0x0020, 0xD559, 0xAD50, 0x0020,
      0xC815, 0xBCF4, 0xC640, 0x0020, 0xC778, 0xD130, 0xB137, 0x0020, 0xC5F0, 0xACB0,
      0xC744, 0x0020, 0xD655, 0xC778, 0xD574, 0x0020, 0xC8FC, 0xC138, 0xC694, 0x002E]"

definition msg_save_failed_prefix :: jstring where
  "msg_save_failed_prefix =
     [0xC124, 0xC815, 0xC744, 0x0020, 0xC800, 0xC7A5, 0xD558, 0xB294, 0x0020, 0xC911,
      0x0020, 0xC624, 0xB958, 0xAC00, 0x0020, 0xBC1C, 0xC0DD, 0xD588, 0xC2B5, 0xB2C8,
      0xB2E4, 0x003A, 0x0020]"

definition msg_save_failed_generic :: jstring where
  "msg_save_failed_generic =
     [0xC124, 0xC815, 0xC744, 0x0020, 0xC800, 0xC7A5, 0xD558, 0xC9C0, 0x0020, 0xBABB,
      0xD588, 0xC2B5, 0xB2C8, 0xB2E4, 0x002E, 0x0020, 0xD559, 0xAD50, 0x0020, 0xC815,
      0xBCF4, 0xC640, 0x0020, 0xC778, 0xD130, 0xB137, 0x0020, 0xC5F0, 0xACB0, 0xC744,
      0x0020, 0xD655, 0xC778, 0xD574, 0x0020, 0xC8FC, 0xC138, 0xC694, 0x002E]"

definition msg_name_too_long :: jstring where
  "msg_name_too_long =
     [0xC120, 0xC0DD, 0xB2D8, 0x0020, 0xC774, 0xB984, 0xC740, 0x0020, 0x0034, 0xC790,
      0xB97C, 0x0020, 0xCD08, 0xACFC, 0xD560, 0x0020, 0xC218, 0x0020, 0xC5C6, 0xC2B5,
      0xB2C8, 0xB2E4]"

text \<open>
  The \<^verbatim>\<open>catch\<close> handlers of \<^verbatim>\<open>initializeStore\<close>, \<^verbatim>\<open>changeWeek\<close> and
  \<^verbatim>\<open>fetchTimetable\<close> build the same message; \<^verbatim>\<open>saveConfig\<close> builds its own.
\<close>

fun load_error_message :: "thrown \<Rightarrow> jstring" where
  "load_error_message (ErrorObj m) = msg_load_failed_prefix @ m"
| "load_error_message NonError = msg_load_failed_generic"

fun save_error_message :: "thrown \<Rightarrow> jstring" where
  "save_error_message (ErrorObj m) = msg_save_failed_prefix @ m"
| "save_error_message NonError = msg_save_failed_generic"

section \<open>The network read\<close>

text \<open>
  The body shared by the three \<^verbatim>\<open>try\<close> blocks:
  \<^verbatim>\<open>
  const response = await fetch(`${API_URL}/timetable?${params}`)
  if (!response.ok) throw new Error(`Error: ${response.status}`)
  const data = await response.json()
  \<close>
  \<^verbatim>\<open>response.ok\<close> is true for a status from 200 to 299.
\<close>

definition response_ok :: "nat \<Rightarrow> bool" where
  "response_ok status \<longleftrightarrow> 200 \<le> status \<and> status \<le> 299"

fun read_timetable :: "reply \<Rightarrow> thrown + TimetableData" where
  "read_timetable (Threw e) = Inl e"
| "read_timetable (Replied status body) =
     (if \<not> response_ok status then Inl (ErrorObj (ascii ''Error: '' @ decimal status))
      else body)"

definition week_param :: "bool \<Rightarrow> jstring" where
  "week_param isNext = (if isNext then ascii ''1'' else ascii ''0'')"

definition timetable_request :: "ClassConfig \<Rightarrow> jstring \<Rightarrow> request" where
  "timetable_request config week =
     \<lparr> q_grade = grade config, q_classno = classNo config,
       q_week = week, q_schoolcode = schoolCode config \<rparr>"

section \<open>The override resolver\<close>

definition configKey :: "ClassConfig \<Rightarrow> jstring" where
  "configKey c = schoolCode c @ ascii ''-'' @ grade c @ ascii ''-'' @ classNo c"

text \<open>
  \<^verbatim>\<open>timetableData?.timetable.flat().find(cell => cell?.subject === subject)?.teacher\<close>
\<close>

definition cell_has_subject :: "jstring \<Rightarrow> Cell option \<Rightarrow> bool" where
  "cell_has_subject s c = (case c of None \<Rightarrow> False | Some x \<Rightarrow> subject x = s)"

definition defaultInfo :: "TimetableData option \<Rightarrow> jstring \<Rightarrow> jstring option" where
  "defaultInfo td s =
     (case td of
        None \<Rightarrow> None
      | Some d \<Rightarrow>
          (case List.find (cell_has_subject s) (concat (timetable d)) of
             None \<Rightarrow> None
           | Some c \<Rightarrow> map_option teacher c))"

text \<open>
  The names of the members of \<^verbatim>\<open>Object.prototype\<close>, which every object built by a
  literal, a spread or \<^verbatim>\<open>JSON.parse\<close> inherits.
\<close>

definition object_prototype_keys :: "jstring list" where
  "object_prototype_keys =
     map ascii
       [''constructor'', ''__defineGetter__'', ''__defineSetter__'', ''hasOwnProperty'',
        ''__lookupGetter__'', ''__lookupSetter__'', ''isPrototypeOf'',
        ''propertyIsEnumerable'', ''toString'', ''valueOf'', ''__proto__'',
        ''toLocaleString'']"

text \<open>
  What a read of a subject in a class's entry can give: a stored string, or a member
  inherited from \<^verbatim>\<open>Object.prototype\<close> (a function, for \<^verbatim>\<open>__proto__\<close> the prototype
  object). An inherited member is not \<^verbatim>\<open>undefined\<close> and is truthy. \<open>None\<close> is
  \<^verbatim>\<open>undefined\<close>.
\<close>

datatype jsvalue = Str jstring | Inherited

text \<open>\<^verbatim>\<open>inner[subject]\<close>: the own property if there is one, else the inherited member.\<close>

definition get_member :: "(jstring, jstring) fmap \<Rightarrow> jstring \<Rightarrow> jsvalue option" where
  "get_member inner s =
     (case fmlookup inner s of
        Some v \<Rightarrow> Some (Str v)
      | None \<Rightarrow> if s \<in> set object_prototype_keys then Some Inherited else None)"

text \<open>JavaScript truthiness of such a read: a non-empty string or an inherited member.\<close>

fun truthy :: "jsvalue option \<Rightarrow> bool" where
  "truthy None = False"
| "truthy (Some (Str v)) = (v \<noteq> [])"
| "truthy (Some Inherited) = True"

text \<open>
  \<^verbatim>\<open>teacherInfo[configKey]?.[subject]\<close>, the read that both \<^verbatim>\<open>getTeacherInfo\<close> and
  the removal guard of \<^verbatim>\<open>saveTeacherInfo\<close> perform. The outer key is always
  \<open>configKey\<close> of a class; it contains a hyphen, which no member name of
  \<^verbatim>\<open>Object.prototype\<close> does (lemma \<open>configKey_not_inherited\<close> below), so the outer
  read is an own property or \<^verbatim>\<open>undefined\<close>.
\<close>

definition read_override :: "overrides \<Rightarrow> ClassConfig \<Rightarrow> jstring \<Rightarrow> jsvalue option" where
  "read_override ti c s =
     (case fmlookup ti (configKey c) of None \<Rightarrow> None | Some inner \<Rightarrow> get_member inner s)"

text \<open>
  \<^verbatim>\<open>saveTeacherInfo\<close>. In the second branch the guard
  \<^verbatim>\<open>if (newInfo[configKey]?.[subject])\<close> is a truthiness test of that read: it holds
  when a non-empty override is stored, and also when none is stored but the subject
  names an inherited member. \<^verbatim>\<open>delete\<close> removes the own property, if any.
  \<^verbatim>\<open>Object.keys(o).length === 0\<close> is emptiness of the domain.
\<close>

definition saveTeacherInfo :: "jstring \<Rightarrow> jstring \<Rightarrow> world \<Rightarrow> world" where
  "saveTeacherInfo subj info w =
     (let key = configKey (classConfig w);
          ti = teacherInfo w;
          dflt = defaultInfo (timetableData w) subj
      in if Some info \<noteq> dflt then
           (let newInfo =
                  fmupd key
                    (fmupd subj info
                       (case fmlookup ti key of None \<Rightarrow> fmempty | Some inner \<Rightarrow> inner))
                    ti
            in w\<lparr>teacherInfo := newInfo, cookie_teacherInfo := Some newInfo\<rparr>)
         else
           (case fmlookup ti key of
              None \<Rightarrow> w
            | Some inner \<Rightarrow>
                if truthy (get_member inner subj) then
                  (let inner' = fmdrop subj inner;
                       newInfo = (if fmdom inner' = {||} then fmdrop key ti
                                  else fmupd key inner' ti)
                   in w\<lparr>teacherInfo := newInfo, cookie_teacherInfo := Some newInfo\<rparr>)
                else w))"

text \<open>
  \<^verbatim>\<open>getTeacherInfo\<close>: whatever the read gives when it is not \<^verbatim>\<open>undefined\<close>
  (\<^verbatim>\<open>override !== undefined\<close>), else \<^verbatim>\<open>defaultInfo || undefined\<close>, which turns an
  empty default into undefined. The declared result type is
  \<^verbatim>\<open>string | undefined\<close>; the result is a \<open>jsvalue\<close> because the read can give an
  inherited member.
\<close>

definition getTeacherInfo :: "jstring \<Rightarrow> world \<Rightarrow> jsvalue option" where
  "getTeacherInfo subj w =
     (case read_override (teacherInfo w) (classConfig w) subj of
        Some ov \<Rightarrow> Some ov
      | None \<Rightarrow>
          (case defaultInfo (timetableData w) subj of
             None \<Rightarrow> None
           | Some d \<Rightarrow> if d = [] then None else Some (Str d)))"

section \<open>Fetching and lifecycle\<close>

text \<open>
  \<^verbatim>\<open>fetchTimetable(config?)\<close>: sets the loading flag and clears the error, reads the
  week selected by \<^verbatim>\<open>isNextWeek\<close>; on success stores the data; on failure stores the
  message and re-throws; \<^verbatim>\<open>finally\<close> clears the loading flag on both paths.
\<close>

definition fetchTimetable :: "network \<Rightarrow> ClassConfig option \<Rightarrow> world \<Rightarrow> (thrown + unit) \<times> world" where
  "fetchTimetable net config w =
     (let currentConfig = (case config of Some c \<Rightarrow> c | None \<Rightarrow> classConfig w);
          w1 = w\<lparr>isLoading := True, error := None\<rparr>;
          req = timetable_request currentConfig (week_param (isNextWeek w1));
          w2 = w1\<lparr>requests := requests w1 @ [req]\<rparr>
      in case read_timetable (net req) of
           Inr data \<Rightarrow> (Inr (), w2\<lparr>timetableData := Some data, isLoading := False\<rparr>)
         | Inl err \<Rightarrow>
             (Inl err, w2\<lparr>error := Some (load_error_message err), isLoading := False\<rparr>))"

text \<open>
  \<^verbatim>\<open>initializeStore\<close>: reads both cookies, resets the staging buffer, then reads week 0.
  The \<^verbatim>\<open>catch\<close> handler swallows the failure.
\<close>

definition initializeStore :: "network \<Rightarrow> world \<Rightarrow> (thrown + unit) \<times> world" where
  "initializeStore net w =
     (let config = (case cookie_classConfig w of Some c \<Rightarrow> c | None \<Rightarrow> DEFAULT_CONFIG);
          ti = (case cookie_teacherInfo w of Some t \<Rightarrow> t | None \<Rightarrow> fmempty);
          w1 = w\<lparr>classConfig := config, teacherInfo := ti, tempConfig := None,
                 isLoading := True\<rparr>;
          req = timetable_request config (ascii ''0'');
          w2 = w1\<lparr>requests := requests w1 @ [req]\<rparr>;
          w3 = (case read_timetable (net req) of
                  Inr data \<Rightarrow>
                    w2\<lparr>timetableData := Some data, isNextWeek := False, error := None\<rparr>
                | Inl err \<Rightarrow> w2\<lparr>error := Some (load_error_message err)\<rparr>)
      in (Inr (), w3\<lparr>isLoading := False\<rparr>))"

definition setTempConfig :: "ClassConfig \<Rightarrow> world \<Rightarrow> world" where
  "setTempConfig config w = w\<lparr>tempConfig := Some config\<rparr>"

definition resetTempConfig :: "world \<Rightarrow> world" where
  "resetTempConfig w = w\<lparr>tempConfig := None\<rparr>"

definition setShowConfig :: "bool \<Rightarrow> world \<Rightarrow> world" where
  "setShowConfig show w =
     w\<lparr>showConfig := show,
       tempConfig := (if show then tempConfig w else None),
       error := None\<rparr>"

text \<open>
  \<^verbatim>\<open>changeWeek(isNext)\<close>: returns at once when the store is on the requested week;
  otherwise reads that week for the active class and, on success only, stores the data
  and the flag.
\<close>

definition changeWeek :: "network \<Rightarrow> bool \<Rightarrow> world \<Rightarrow> (thrown + unit) \<times> world" where
  "changeWeek net isNext w =
     (if (isNext \<and> isNextWeek w) \<or> (\<not> isNext \<and> \<not> isNextWeek w) then (Inr (), w)
      else
        (let w1 = w\<lparr>isWeekChangeLoading := True\<rparr>;
             req = timetable_request (classConfig w1) (week_param isNext);
             w2 = w1\<lparr>requests := requests w1 @ [req]\<rparr>;
             w3 = (case read_timetable (net req) of
                     Inr data \<Rightarrow>
                       w2\<lparr>timetableData := Some data, isNextWeek := isNext, error := None\<rparr>
                   | Inl err \<Rightarrow> w2\<lparr>error := Some (load_error_message err)\<rparr>)
         in (Inr (), w3\<lparr>isWeekChangeLoading := False\<rparr>)))"

text \<open>
  \<^verbatim>\<open>saveConfig\<close>: with nothing staged it returns false. Otherwise it resets the week,
  fetches with the staged configuration, and only when that fetch resolves writes the
  cookie and commits; when it rejects, the handler stores its own message.
\<close>

definition saveConfig :: "network \<Rightarrow> world \<Rightarrow> (thrown + bool) \<times> world" where
  "saveConfig net w =
     (case tempConfig w of
        None \<Rightarrow> (Inr False, w)
      | Some tc \<Rightarrow>
          (let w1 = w\<lparr>isNextWeek := False, isWeekChangeLoading := True\<rparr>
           in case fetchTimetable net (Some tc) w1 of
                (Inr _, w2) \<Rightarrow>
                  (Inr True,
                   w2\<lparr>cookie_classConfig := Some tc, classConfig := tc, tempConfig := None,
                      showConfig := False, isWeekChangeLoading := False\<rparr>)
              | (Inl err, w2) \<Rightarrow>
                  (Inr False,
                   w2\<lparr>error := Some (save_error_message err),
                      isWeekChangeLoading := False\<rparr>)))"

section \<open>The teacher-name editor\<close>

text \<open>
  The component state of \<^verbatim>\<open>TeacherInfoPopup\<close> that \<^verbatim>\<open>handleSave\<close> touches; the
  fields are the hooks \<^verbatim>\<open>teacherInfo\<close>, \<^verbatim>\<open>isOpen\<close> and \<^verbatim>\<open>error\<close>. The callback
  \<^verbatim>\<open>onSave\<close> is a property of the component and acts on a state of the caller's.
\<close>

record popup =
  p_teacherInfo :: jstring
  p_isOpen :: bool
  p_error :: jstring

definition handleSave :: "(jstring \<Rightarrow> 's \<Rightarrow> 's) \<Rightarrow> popup \<Rightarrow> 's \<Rightarrow> popup \<times> 's" where
  "handleSave onSave p s =
     (if length (p_teacherInfo p) > 4 then (p\<lparr>p_error := msg_name_too_long\<rparr>, s)
      else (p\<lparr>p_isOpen := False, p_error := []\<rparr>, onSave (p_teacherInfo p) s))"

section \<open>Notions used to state the properties\<close>

text \<open>The query that \<^verbatim>\<open>fetchTimetable(config)\<close> sends from a given store.\<close>

definition fetch_query :: "ClassConfig option \<Rightarrow> world \<Rightarrow> request" where
  "fetch_query config w =
     timetable_request (case config of Some c \<Rightarrow> c | None \<Rightarrow> classConfig w)
       (week_param (isNextWeek w))"

text \<open>
  The entry of the override map for a class key and a subject: what is stored, that is,
  the own property.
\<close>

definition stored_override :: "overrides \<Rightarrow> jstring \<Rightarrow> jstring \<Rightarrow> jstring option" where
  "stored_override ti k s =
     (case fmlookup ti k of None \<Rightarrow> None | Some inner \<Rightarrow> fmlookup inner s)"


text \<open>
  The invariant the specification states for the override map, read for the active
  class (the loaded snapshot is that class's): no override stored under the active
  class key equals the server default of its subject in the loaded snapshot.
\<close>

definition override_invariant :: "world \<Rightarrow> bool" where
  "override_invariant w =
     fmpred (\<lambda>s v. Some v \<noteq> defaultInfo (timetableData w) s)
       (case fmlookup (teacherInfo w) (configKey (classConfig w)) of
          None \<Rightarrow> fmempty
        | Some inner \<Rightarrow> inner)"

section \<open>Concrete stores used to exercise the theorems\<close>

definition math :: jstring where
  "math = ascii ''Math''"

definition kim :: jstring where
  "kim = ascii ''Kim''"

definition lee :: jstring where
  "lee = ascii ''Lee''"

definition cell_of :: "jstring \<Rightarrow> jstring \<Rightarrow> Cell" where
  "cell_of s t =
     \<lparr> period = 1, subject = s, teacher = t, replaced = False, original = None \<rparr>"

text \<open>A one-day snapshot: a null cell, then one period of the given subject.\<close>

definition snapshot_of :: "jstring \<Rightarrow> jstring \<Rightarrow> TimetableData" where
  "snapshot_of s t =
     \<lparr> day_time = [], timetable = [[None, Some (cell_of s t)]], update_date = [] \<rparr>"

text \<open>The default class with a loaded snapshot in which Kim teaches Math.\<close>

definition loaded_world :: world where
  "loaded_world =
     initial_world\<lparr>timetableData := Some (snapshot_of math kim), isLoading := False\<rparr>"


text \<open>The store after the user has overridden the Math teacher with Lee.\<close>

definition lee_world :: world where
  "lee_world = saveTeacherInfo math lee loaded_world"

text \<open>
  The same store after the server has sent a snapshot whose only subject is named
  \<^verbatim>\<open>toString\<close>, taught by Kim, respectively with the empty string as teacher.
\<close>

definition toString_name :: jstring where
  "toString_name = ascii ''toString''"

definition toString_world :: world where
  "toString_world =
     snd (fetchTimetable (\<lambda>q. Replied 200 (Inr (snapshot_of toString_name kim))) None
            lee_world)"

definition blank_toString_world :: world where
  "blank_toString_world =
     snd (fetchTimetable (\<lambda>q. Replied 200 (Inr (snapshot_of toString_name []))) None
            lee_world)"

text \<open>A class of another school, staged in the settings dialog.\<close>

definition other_config :: ClassConfig where
  "other_config = DEFAULT_CONFIG\<lparr>schoolCode := ascii ''1234567''\<rparr>"

definition staged_world :: world where
  "staged_world = setTempConfig other_config lee_world"

text \<open>
  Four servers: one answers every query with status 200 and the given data, one with
  status 404, one is unreachable, one answers 200 with a body that is not JSON.
\<close>

definition net_ok :: "TimetableData \<Rightarrow> network" where
  "net_ok d = (\<lambda>q. Replied 200 (Inr d))"

definition net_404 :: network where
  "net_404 = (\<lambda>q. Replied 404 (Inl NonError))"

definition net_down :: network where
  "net_down = (\<lambda>q. Threw (ErrorObj (ascii ''Failed to fetch'')))"

definition net_garbled :: network where
  "net_garbled = (\<lambda>q. Replied 200 (Inl (ErrorObj (ascii ''Unexpected token''))))"

definition error_404 :: thrown where
  "error_404 = ErrorObj (ascii ''Error: 404'')"

text \<open>Two editor states: a three-letter name and a five-letter name typed in.\<close>

definition short_edit :: popup where
  "short_edit = \<lparr> p_teacherInfo = lee, p_isOpen = True, p_error = [] \<rparr>"

definition long_edit :: popup where
  "long_edit = \<lparr> p_teacherInfo = ascii ''Alice'', p_isOpen = True, p_error = [] \<rparr>"

section \<open>Override resolver: write and read decisions\<close>

text \<open>
  The class key is never the name of an inherited member, so reading the class's entry
  in the override map never falls through to \<^verbatim>\<open>Object.prototype\<close>.
\<close>

lemma configKey_not_inherited: "configKey c \<notin> set object_prototype_keys"
proof -
  have h: "0x2D \<in> set (configKey c)"
    by (simp add: configKey_def ascii_def)
  have n: "\<forall>k \<in> set object_prototype_keys. 0x2D \<notin> set k"
    by code_simp
  show ?thesis
    using h n by blast
qed

text \<open>
  Claim C3. For every class identity, subject \<open>s\<close> and entered name \<open>e\<close> that differs
  from the server default for \<open>s\<close> (an absent default differs from every name): after
  \<^verbatim>\<open>saveTeacherInfo(s, e)\<close> the override map holds \<open>e\<close> under the class key and \<open>s\<close>,
  \<^verbatim>\<open>getTeacherInfo(s)\<close> returns \<open>e\<close>, and the cookie holds the new map.
\<close>

theorem setTeacherOverride_stores_differing_name:
  assumes "Some e \<noteq> defaultInfo (timetableData w) s"
  shows "stored_override (teacherInfo (saveTeacherInfo s e w)) (configKey (classConfig w)) s
           = Some e
       \<and> getTeacherInfo s (saveTeacherInfo s e w) = Some (Str e)
       \<and> cookie_teacherInfo (saveTeacherInfo s e w) = Some (teacherInfo (saveTeacherInfo s e w))"
  using assms
  by (simp add: saveTeacherInfo_def getTeacherInfo_def Let_def stored_override_def
        read_override_def get_member_def)

theorem setTeacherOverride_stores_differing_name_witness:
  "Some lee \<noteq> defaultInfo (timetableData loaded_world) math
   \<and> stored_override (teacherInfo (saveTeacherInfo math lee loaded_world))
        (configKey (classConfig loaded_world)) math = Some lee
   \<and> getTeacherInfo math (saveTeacherInfo math lee loaded_world) = Some (Str lee)
   \<and> Some kim \<noteq> defaultInfo (timetableData blank_toString_world) toString_name
   \<and> getTeacherInfo toString_name (saveTeacherInfo toString_name kim blank_toString_world)
        = Some (Str kim)"
proof -
  have h: "Some lee \<noteq> defaultInfo (timetableData loaded_world) math"
    by code_simp
  have g: "Some kim \<noteq> defaultInfo (timetableData blank_toString_world) toString_name"
    by code_simp
  show ?thesis
    using h g setTeacherOverride_stores_differing_name [OF h]
      setTeacherOverride_stores_differing_name [OF g]
    by simp
qed

text \<open>
  Claim C7. Writing the same override twice in succession leaves the store, and so the
  override map and its cookie, exactly as writing it once does, for every subject, name
  and starting state.
\<close>

theorem setTeacherOverride_idempotent:
  "saveTeacherInfo s e (saveTeacherInfo s e w) = saveTeacherInfo s e w"
  by (auto simp add: saveTeacherInfo_def Let_def get_member_def split: option.splits)

theorem setTeacherOverride_idempotent_witness:
  "teacherInfo (saveTeacherInfo math lee (saveTeacherInfo math lee loaded_world))
     = teacherInfo (saveTeacherInfo math lee loaded_world)
   \<and> teacherInfo (saveTeacherInfo math kim (saveTeacherInfo math kim loaded_world))
     = teacherInfo (saveTeacherInfo math kim loaded_world)
   \<and> saveTeacherInfo toString_name kim (saveTeacherInfo toString_name kim toString_world)
     = saveTeacherInfo toString_name kim toString_world"
  using setTeacherOverride_idempotent [of math lee loaded_world]
    setTeacherOverride_idempotent [of math kim loaded_world]
    setTeacherOverride_idempotent [of toString_name kim toString_world]
  by simp




text \<open>
  The second half of the write decision: when the deleted override was the only entry
  of the class, the class key itself is removed from the map. In the scenario of the
  specification (default Kim, override Lee, then Kim again) the map is empty afterwards.
\<close>

lemma saveTeacherInfo_drops_emptied_class:
  assumes "defaultInfo (timetableData w) s = Some d"
    and "fmlookup (teacherInfo w) (configKey (classConfig w)) = Some inner"
    and "fmlookup inner s = Some v" and "v \<noteq> []"
    and "fmdom inner = {|s|}"
  shows "fmlookup (teacherInfo (saveTeacherInfo s d w)) (configKey (classConfig w)) = None"
  using assms by (simp add: saveTeacherInfo_def Let_def get_member_def)

lemma kim_lee_kim_scenario:
  "getTeacherInfo math lee_world = Some (Str lee)
   \<and> teacherInfo (saveTeacherInfo math kim lee_world) = fmempty
   \<and> getTeacherInfo math (saveTeacherInfo math kim lee_world) = Some (Str kim)"
  by code_simp

text \<open>
  Reading back: when the read of the class's entry gives undefined, an empty default is
  turned into undefined; a stored empty string is returned as it is.
\<close>

lemma getTeacherInfo_when_read_undefined:
  "read_override (teacherInfo w) (classConfig w) s = None \<Longrightarrow>
   getTeacherInfo s w
     = (case defaultInfo (timetableData w) s of
          None \<Rightarrow> None
        | Some d \<Rightarrow> if d = [] then None else Some (Str d))"
  by (simp add: getTeacherInfo_def)

lemma getTeacherInfo_stored_override:
  "stored_override (teacherInfo w) (configKey (classConfig w)) s = Some v \<Longrightarrow>
   getTeacherInfo s w = Some (Str v)"
  by (auto simp add: getTeacherInfo_def stored_override_def read_override_def get_member_def
        split: option.splits)

lemma read_override_undefined_iff:
  "read_override ti c s = None \<longleftrightarrow>
     stored_override ti (configKey c) s = None
     \<and> (s \<in> set object_prototype_keys \<longrightarrow> fmlookup ti (configKey c) = None)"
  by (auto simp add: read_override_def stored_override_def get_member_def
        split: option.splits)

text \<open>
  Claim C10 says that with no override stored for the class key and subject, and the
  empty string as the teacher of the first snapshot cell of that subject,
  \<^verbatim>\<open>getTeacherInfo\<close> returns undefined, while a stored empty-string override is
  returned as the empty string. The code departs from it for a subject named like a
  member of \<^verbatim>\<open>Object.prototype\<close>: with Lee stored for Math and a snapshot whose
  subject \<^verbatim>\<open>toString\<close> has the empty string as teacher, no override is stored for
  \<^verbatim>\<open>toString\<close>, yet \<^verbatim>\<open>getTeacherInfo\<close> returns the inherited member, which is
  neither undefined nor a string.
\<close>

theorem getEffectiveTeacher_returns_inherited_member:
  "stored_override (teacherInfo blank_toString_world)
       (configKey (classConfig blank_toString_world)) toString_name = None
   \<and> timetableData blank_toString_world = Some (snapshot_of toString_name [])
   \<and> List.find (cell_has_subject toString_name)
         (concat (timetable (snapshot_of toString_name [])))
       = Some (Some (cell_of toString_name []))
   \<and> teacher (cell_of toString_name []) = []
   \<and> getTeacherInfo toString_name blank_toString_world = Some Inherited
   \<and> getTeacherInfo toString_name blank_toString_world \<noteq> None"
  by code_simp

section \<open>Fetching: outcomes of the network read\<close>

lemma read_timetable_failure_iff:
  "read_timetable r = Inl err \<longleftrightarrow>
     r = Threw err
     \<or> (\<exists>st body. r = Replied st body
           \<and> (if response_ok st then body = Inl err
               else err = ErrorObj (ascii ''Error: '' @ decimal st)))"
  by (cases r) auto

lemma fetchTimetable_success:
  "read_timetable (net (fetch_query config w)) = Inr data \<Longrightarrow>
   fetchTimetable net config w =
     (Inr (), w\<lparr>timetableData := Some data, isLoading := False, error := None,
                requests := requests w @ [fetch_query config w]\<rparr>)"
  by (simp add: fetchTimetable_def fetch_query_def Let_def)

lemma fetchTimetable_failure:
  "read_timetable (net (fetch_query config w)) = Inl err \<Longrightarrow>
   fetchTimetable net config w =
     (Inl err, w\<lparr>isLoading := False, error := Some (load_error_message err),
                requests := requests w @ [fetch_query config w]\<rparr>)"
  by (simp add: fetchTimetable_def fetch_query_def Let_def)

text \<open>
  Claim C6. For every call of \<^verbatim>\<open>fetchTimetable\<close>: one query is issued; a 2xx reply
  with a JSON body makes the call resolve with the snapshot replaced by that body; a
  reply outside 2xx, a transport failure, or a body that fails to parse makes the call
  reject with the error, and the snapshot is the one loaded before.
\<close>

theorem fetch_replaces_snapshot_or_raises:
  "(net (fetch_query config w) = Replied st (Inr data) \<and> response_ok st \<longrightarrow>
      fst (fetchTimetable net config w) = Inr ()
      \<and> timetableData (snd (fetchTimetable net config w)) = Some data)
 \<and> (net (fetch_query config w) = Replied st body \<and> \<not> response_ok st \<longrightarrow>
      fst (fetchTimetable net config w) = Inl (ErrorObj (ascii ''Error: '' @ decimal st))
      \<and> timetableData (snd (fetchTimetable net config w)) = timetableData w)
 \<and> (net (fetch_query config w) = Threw e \<longrightarrow>
      fst (fetchTimetable net config w) = Inl e
      \<and> timetableData (snd (fetchTimetable net config w)) = timetableData w)
 \<and> (net (fetch_query config w) = Replied st (Inl e) \<and> response_ok st \<longrightarrow>
      fst (fetchTimetable net config w) = Inl e
      \<and> timetableData (snd (fetchTimetable net config w)) = timetableData w)
 \<and> requests (snd (fetchTimetable net config w)) = requests w @ [fetch_query config w]"
  by (cases "read_timetable (net (fetch_query config w))")
     (auto simp add: fetchTimetable_success fetchTimetable_failure)

theorem fetch_replaces_snapshot_or_raises_witness:
  "net_ok (snapshot_of math lee) (fetch_query None loaded_world)
       = Replied 200 (Inr (snapshot_of math lee))
   \<and> response_ok 200
   \<and> fst (fetchTimetable (net_ok (snapshot_of math lee)) None loaded_world) = Inr ()
   \<and> timetableData (snd (fetchTimetable (net_ok (snapshot_of math lee)) None loaded_world))
       = Some (snapshot_of math lee)
   \<and> net_404 (fetch_query None loaded_world) = Replied 404 (Inl NonError)
   \<and> \<not> response_ok 404
   \<and> fst (fetchTimetable net_404 None loaded_world) = Inl error_404
   \<and> timetableData (snd (fetchTimetable net_404 None loaded_world))
       = timetableData loaded_world
   \<and> net_down (fetch_query None loaded_world) = Threw (ErrorObj (ascii ''Failed to fetch''))
   \<and> fst (fetchTimetable net_down None loaded_world)
       = Inl (ErrorObj (ascii ''Failed to fetch''))
   \<and> timetableData (snd (fetchTimetable net_down None loaded_world))
       = timetableData loaded_world
   \<and> net_garbled (fetch_query None loaded_world)
       = Replied 200 (Inl (ErrorObj (ascii ''Unexpected token'')))
   \<and> fst (fetchTimetable net_garbled None loaded_world)
       = Inl (ErrorObj (ascii ''Unexpected token''))
   \<and> timetableData (snd (fetchTimetable net_garbled None loaded_world))
       = timetableData loaded_world"
proof -
  let ?q = "fetch_query None loaded_world"
  have ok: "response_ok 200" and bad: "\<not> response_ok 404"
    by (simp_all add: response_ok_def)
  have e404: "ErrorObj (ascii ''Error: '' @ decimal 404) = error_404"
    by code_simp
  have h1: "net_ok (snapshot_of math lee) ?q = Replied 200 (Inr (snapshot_of math lee))"
    by (simp add: net_ok_def)
  have h2: "net_404 ?q = Replied 404 (Inl NonError)"
    by (simp add: net_404_def)
  have h3: "net_down ?q = Threw (ErrorObj (ascii ''Failed to fetch''))"
    by (simp add: net_down_def)
  have h4: "net_garbled ?q = Replied 200 (Inl (ErrorObj (ascii ''Unexpected token'')))"
    by (simp add: net_garbled_def)
  have a: "fst (fetchTimetable (net_ok (snapshot_of math lee)) None loaded_world) = Inr ()
      \<and> timetableData (snd (fetchTimetable (net_ok (snapshot_of math lee)) None loaded_world))
          = Some (snapshot_of math lee)"
    using fetch_replaces_snapshot_or_raises
        [where net = "net_ok (snapshot_of math lee)" and config = None and w = loaded_world
           and st = 200 and data = "snapshot_of math lee"] h1 ok
    by simp
  have b: "fst (fetchTimetable net_404 None loaded_world) = Inl error_404
      \<and> timetableData (snd (fetchTimetable net_404 None loaded_world))
          = timetableData loaded_world"
    using fetch_replaces_snapshot_or_raises
        [where net = net_404 and config = None and w = loaded_world
           and st = 404 and body = "Inl NonError"] h2 bad e404
    by simp
  have c: "fst (fetchTimetable net_down None loaded_world)
          = Inl (ErrorObj (ascii ''Failed to fetch''))
      \<and> timetableData (snd (fetchTimetable net_down None loaded_world))
          = timetableData loaded_world"
    using fetch_replaces_snapshot_or_raises
        [where net = net_down and config = None and w = loaded_world
           and e = "ErrorObj (ascii ''Failed to fetch'')"] h3
    by simp
  have d: "fst (fetchTimetable net_garbled None loaded_world)
          = Inl (ErrorObj (ascii ''Unexpected token''))
      \<and> timetableData (snd (fetchTimetable net_garbled None loaded_world))
          = timetableData loaded_world"
    using fetch_replaces_snapshot_or_raises
        [where net = net_garbled and config = None and w = loaded_world
           and st = 200 and e = "ErrorObj (ascii ''Unexpected token'')"] h4 ok
    by simp
  show ?thesis
    using ok bad h1 h2 h3 h4 a b c d by simp
qed

section \<open>Week changes, identity changes and start-up\<close>

lemma changeWeek_noop:
  "isNextWeek w = b \<Longrightarrow> changeWeek net b w = (Inr (), w)"
  by (auto simp add: changeWeek_def)

lemma changeWeek_success:
  "isNextWeek w \<noteq> b \<Longrightarrow>
   read_timetable (net (timetable_request (classConfig w) (week_param b))) = Inr data \<Longrightarrow>
   changeWeek net b w =
     (Inr (), w\<lparr>timetableData := Some data, isNextWeek := b, error := None,
                isWeekChangeLoading := False,
                requests := requests w @ [timetable_request (classConfig w) (week_param b)]\<rparr>)"
  by (auto simp add: changeWeek_def Let_def)

lemma changeWeek_failure:
  "isNextWeek w \<noteq> b \<Longrightarrow>
   read_timetable (net (timetable_request (classConfig w) (week_param b))) = Inl err \<Longrightarrow>
   changeWeek net b w =
     (Inr (), w\<lparr>error := Some (load_error_message err), isWeekChangeLoading := False,
                requests := requests w @ [timetable_request (classConfig w) (week_param b)]\<rparr>)"
  by (auto simp add: changeWeek_def Let_def)

lemma changeWeek_one_request:
  "length (requests (snd (changeWeek net b w))) \<le> length (requests w) + 1"
  by (cases "read_timetable (net (timetable_request (classConfig w) (week_param b)))")
     (auto simp add: changeWeek_def Let_def)

lemma saveConfig_nothing_staged:
  "tempConfig w = None \<Longrightarrow> saveConfig net w = (Inr False, w)"
  by (simp add: saveConfig_def)

lemma saveConfig_success:
  "tempConfig w = Some tc \<Longrightarrow>
   read_timetable (net (timetable_request tc (week_param False))) = Inr data \<Longrightarrow>
   saveConfig net w =
     (Inr True,
      w\<lparr>classConfig := tc, tempConfig := None, timetableData := Some data,
        isLoading := False, isWeekChangeLoading := False, error := None,
        isNextWeek := False, showConfig := False, cookie_classConfig := Some tc,
        requests := requests w @ [timetable_request tc (week_param False)]\<rparr>)"
  by (simp add: saveConfig_def fetchTimetable_def Let_def)

lemma saveConfig_failure:
  "tempConfig w = Some tc \<Longrightarrow>
   read_timetable (net (timetable_request tc (week_param False))) = Inl err \<Longrightarrow>
   saveConfig net w =
     (Inr False,
      w\<lparr>isLoading := False, isWeekChangeLoading := False,
        error := Some (save_error_message err), isNextWeek := False,
        requests := requests w @ [timetable_request tc (week_param False)]\<rparr>)"
  by (simp add: saveConfig_def fetchTimetable_def Let_def)

text \<open>
  Claim C4. With a candidate identity staged, \<^verbatim>\<open>saveConfig\<close> issues one query built
  from the candidate (week 0) before anything is committed. When that read succeeds the
  call returns true, the candidate is the active identity and the stored cookie, and
  the staging buffer is cleared. When it fails the call returns false, the active
  identity, both cookies and the override map are as before, the candidate stays
  staged, and the error message of \<^verbatim>\<open>saveConfig\<close> is set.
\<close>

theorem saveIdentity_commits_only_on_fetch_success:
  assumes "tempConfig w = Some tc"
  shows "requests (snd (saveConfig net w))
           = requests w @ [timetable_request tc (week_param False)]
   \<and> (read_timetable (net (timetable_request tc (week_param False))) = Inr data \<longrightarrow>
        fst (saveConfig net w) = Inr True
        \<and> classConfig (snd (saveConfig net w)) = tc
        \<and> cookie_classConfig (snd (saveConfig net w)) = Some tc
        \<and> tempConfig (snd (saveConfig net w)) = None)
   \<and> (read_timetable (net (timetable_request tc (week_param False))) = Inl err \<longrightarrow>
        fst (saveConfig net w) = Inr False
        \<and> classConfig (snd (saveConfig net w)) = classConfig w
        \<and> cookie_classConfig (snd (saveConfig net w)) = cookie_classConfig w
        \<and> cookie_teacherInfo (snd (saveConfig net w)) = cookie_teacherInfo w
        \<and> teacherInfo (snd (saveConfig net w)) = teacherInfo w
        \<and> tempConfig (snd (saveConfig net w)) = Some tc
        \<and> error (snd (saveConfig net w)) = Some (save_error_message err))"
  using assms
  by (cases "read_timetable (net (timetable_request tc (week_param False)))")
     (simp_all add: saveConfig_success saveConfig_failure)

theorem saveIdentity_commits_only_on_fetch_success_witness:
  "tempConfig staged_world = Some other_config
   \<and> read_timetable (net_404 (timetable_request other_config (week_param False)))
       = Inl error_404
   \<and> fst (saveConfig net_404 staged_world) = Inr False
   \<and> classConfig (snd (saveConfig net_404 staged_world)) = classConfig staged_world
   \<and> cookie_classConfig (snd (saveConfig net_404 staged_world))
       = cookie_classConfig staged_world
   \<and> cookie_teacherInfo (snd (saveConfig net_404 staged_world))
       = cookie_teacherInfo staged_world
   \<and> tempConfig (snd (saveConfig net_404 staged_world)) = Some other_config
   \<and> error (snd (saveConfig net_404 staged_world)) = Some (save_error_message error_404)
   \<and> read_timetable
         (net_ok (snapshot_of math kim) (timetable_request other_config (week_param False)))
       = Inr (snapshot_of math kim)
   \<and> fst (saveConfig (net_ok (snapshot_of math kim)) staged_world) = Inr True
   \<and> classConfig (snd (saveConfig (net_ok (snapshot_of math kim)) staged_world))
       = other_config
   \<and> cookie_classConfig (snd (saveConfig (net_ok (snapshot_of math kim)) staged_world))
       = Some other_config
   \<and> tempConfig (snd (saveConfig (net_ok (snapshot_of math kim)) staged_world)) = None"
proof -
  have h: "tempConfig staged_world = Some other_config"
    by (simp add: staged_world_def setTempConfig_def)
  have f: "read_timetable (net_404 (timetable_request other_config (week_param False)))
       = Inl error_404"
    by code_simp
  have g: "read_timetable
         (net_ok (snapshot_of math kim) (timetable_request other_config (week_param False)))
       = Inr (snapshot_of math kim)"
    by (simp add: net_ok_def response_ok_def)
  have a: "fst (saveConfig net_404 staged_world) = Inr False
   \<and> classConfig (snd (saveConfig net_404 staged_world)) = classConfig staged_world
   \<and> cookie_classConfig (snd (saveConfig net_404 staged_world))
       = cookie_classConfig staged_world
   \<and> cookie_teacherInfo (snd (saveConfig net_404 staged_world))
       = cookie_teacherInfo staged_world
   \<and> tempConfig (snd (saveConfig net_404 staged_world)) = Some other_config
   \<and> error (snd (saveConfig net_404 staged_world)) = Some (save_error_message error_404)"
    using saveIdentity_commits_only_on_fetch_success
        [OF h, where net = net_404 and err = error_404] f
    by simp
  have b: "fst (saveConfig (net_ok (snapshot_of math kim)) staged_world) = Inr True
   \<and> classConfig (snd (saveConfig (net_ok (snapshot_of math kim)) staged_world))
       = other_config
   \<and> cookie_classConfig (snd (saveConfig (net_ok (snapshot_of math kim)) staged_world))
       = Some other_config
   \<and> tempConfig (snd (saveConfig (net_ok (snapshot_of math kim)) staged_world)) = None"
    using saveIdentity_commits_only_on_fetch_success
        [OF h, where net = "net_ok (snapshot_of math kim)" and data = "snapshot_of math kim"] g
    by simp
  show ?thesis
    using h f g a b by simp
qed

text \<open>
  Claim C5, as amended. \<^verbatim>\<open>changeWeek(b)\<close> returns the store untouched, with no query
  issued, when the store is already on the requested week. Otherwise it issues exactly
  one query for the requested week of the active class; on success the snapshot and the
  week flag are replaced, on failure both are as before. A second \<^verbatim>\<open>changeWeek(true)\<close>
  is a no-op whenever the first one left the store on next week, and then the two calls
  issue at most one query.
\<close>

theorem changeWeek_noop_or_single_fetch:
  "(isNextWeek w = b \<longrightarrow> changeWeek net b w = (Inr (), w))
 \<and> (isNextWeek w \<noteq> b \<longrightarrow>
      requests (snd (changeWeek net b w))
        = requests w @ [timetable_request (classConfig w) (week_param b)])
 \<and> (isNextWeek w \<noteq> b
      \<and> read_timetable (net (timetable_request (classConfig w) (week_param b))) = Inr data \<longrightarrow>
      isNextWeek (snd (changeWeek net b w)) = b
      \<and> timetableData (snd (changeWeek net b w)) = Some data)
 \<and> (isNextWeek w \<noteq> b
      \<and> read_timetable (net (timetable_request (classConfig w) (week_param b))) = Inl err \<longrightarrow>
      isNextWeek (snd (changeWeek net b w)) = isNextWeek w
      \<and> timetableData (snd (changeWeek net b w)) = timetableData w)
 \<and> (isNextWeek (snd (changeWeek net True w)) \<longrightarrow>
      changeWeek net' True (snd (changeWeek net True w)) = (Inr (), snd (changeWeek net True w))
      \<and> length (requests (snd (changeWeek net' True (snd (changeWeek net True w)))))
           \<le> length (requests w) + 1)"
proof -
  have a: "isNextWeek w = b \<longrightarrow> changeWeek net b w = (Inr (), w)"
    by (simp add: changeWeek_noop)
  have b: "isNextWeek w \<noteq> b \<longrightarrow>
      requests (snd (changeWeek net b w))
        = requests w @ [timetable_request (classConfig w) (week_param b)]"
    by (cases "read_timetable (net (timetable_request (classConfig w) (week_param b)))")
       (auto simp add: changeWeek_success changeWeek_failure)
  have c: "isNextWeek w \<noteq> b
      \<and> read_timetable (net (timetable_request (classConfig w) (week_param b))) = Inr data \<longrightarrow>
      isNextWeek (snd (changeWeek net b w)) = b
      \<and> timetableData (snd (changeWeek net b w)) = Some data"
    by (auto simp add: changeWeek_success)
  have d: "isNextWeek w \<noteq> b
      \<and> read_timetable (net (timetable_request (classConfig w) (week_param b))) = Inl err \<longrightarrow>
      isNextWeek (snd (changeWeek net b w)) = isNextWeek w
      \<and> timetableData (snd (changeWeek net b w)) = timetableData w"
    by (auto simp add: changeWeek_failure)
  have e: "isNextWeek (snd (changeWeek net True w)) \<longrightarrow>
      changeWeek net' True (snd (changeWeek net True w)) = (Inr (), snd (changeWeek net True w))
      \<and> length (requests (snd (changeWeek net' True (snd (changeWeek net True w)))))
           \<le> length (requests w) + 1"
    using changeWeek_one_request [of net True w] by (simp add: changeWeek_noop)
  show ?thesis
    using a b c d e by blast
qed

theorem changeWeek_noop_or_single_fetch_witness:
  "isNextWeek loaded_world = False
   \<and> changeWeek net_404 False loaded_world = (Inr (), loaded_world)
   \<and> isNextWeek loaded_world \<noteq> True
   \<and> requests (snd (changeWeek net_404 True loaded_world))
       = requests loaded_world @ [timetable_request (classConfig loaded_world) (week_param True)]
   \<and> read_timetable
        (net_404 (timetable_request (classConfig loaded_world) (week_param True)))
       = Inl error_404
   \<and> isNextWeek (snd (changeWeek net_404 True loaded_world)) = isNextWeek loaded_world
   \<and> timetableData (snd (changeWeek net_404 True loaded_world)) = timetableData loaded_world
   \<and> read_timetable
        (net_ok (snapshot_of math lee)
           (timetable_request (classConfig loaded_world) (week_param True)))
       = Inr (snapshot_of math lee)
   \<and> isNextWeek (snd (changeWeek (net_ok (snapshot_of math lee)) True loaded_world)) = True
   \<and> timetableData (snd (changeWeek (net_ok (snapshot_of math lee)) True loaded_world))
       = Some (snapshot_of math lee)
   \<and> length (requests (snd (changeWeek net_404 True
                 (snd (changeWeek (net_ok (snapshot_of math lee)) True loaded_world)))))
       \<le> length (requests loaded_world) + 1"
proof -
  let ?ok = "net_ok (snapshot_of math lee)"
  have h0: "isNextWeek loaded_world = False"
    by (simp add: loaded_world_def initial_world_def)
  have h1: "isNextWeek loaded_world \<noteq> True"
    using h0 by simp
  have f: "read_timetable
        (net_404 (timetable_request (classConfig loaded_world) (week_param True)))
       = Inl error_404"
    by code_simp
  have g: "read_timetable (?ok (timetable_request (classConfig loaded_world) (week_param True)))
       = Inr (snapshot_of math lee)"
    by (simp add: net_ok_def response_ok_def)
  have a: "changeWeek net_404 False loaded_world = (Inr (), loaded_world)"
    using changeWeek_noop_or_single_fetch [where w = loaded_world and b = False and net = net_404]
      h0 by simp
  have b: "requests (snd (changeWeek net_404 True loaded_world))
       = requests loaded_world @ [timetable_request (classConfig loaded_world) (week_param True)]
     \<and> isNextWeek (snd (changeWeek net_404 True loaded_world)) = isNextWeek loaded_world
     \<and> timetableData (snd (changeWeek net_404 True loaded_world)) = timetableData loaded_world"
    using changeWeek_noop_or_single_fetch
        [where w = loaded_world and b = True and net = net_404 and err = error_404]
      h1 f by simp
  have c: "isNextWeek (snd (changeWeek ?ok True loaded_world)) = True
     \<and> timetableData (snd (changeWeek ?ok True loaded_world)) = Some (snapshot_of math lee)"
    using changeWeek_noop_or_single_fetch
        [where w = loaded_world and b = True and net = ?ok and data = "snapshot_of math lee"]
      h1 g by simp
  have d: "length (requests (snd (changeWeek net_404 True (snd (changeWeek ?ok True loaded_world)))))
       \<le> length (requests loaded_world) + 1"
    using changeWeek_noop_or_single_fetch
        [where w = loaded_world and b = True and net = ?ok and net' = net_404
           and data = "snapshot_of math lee" and err = error_404] c
    by blast
  show ?thesis
    using h0 h1 f g a b c d by simp
qed

text \<open>
  Claim C5 as stated fails when the first fetch fails: the week flag stays on the
  current week, so the second \<^verbatim>\<open>changeWeek(true)\<close> is not a no-op and fetches again.
  Against a server answering 404 the two calls issue two queries.
\<close>

theorem changeWeek_twice_counterexample:
  "isNextWeek loaded_world = False
   \<and> isNextWeek (snd (changeWeek net_404 True loaded_world)) = False
   \<and> length (requests (snd (changeWeek net_404 True (snd (changeWeek net_404 True loaded_world)))))
       = length (requests loaded_world) + 2
   \<and> \<not> length (requests (snd (changeWeek net_404 True
                    (snd (changeWeek net_404 True loaded_world)))))
         \<le> length (requests loaded_world) + 1"
  by code_simp

text \<open>
  Claim C8. \<^verbatim>\<open>initializeStore\<close> and \<^verbatim>\<open>changeWeek\<close> always resolve: a failed read is
  turned into the store's error message. \<^verbatim>\<open>fetchTimetable\<close> stores the same message
  and re-throws, and \<^verbatim>\<open>saveConfig\<close>, its caller, never rejects. Whatever the reply,
  \<^verbatim>\<open>isLoading\<close> is false after \<^verbatim>\<open>initializeStore\<close> and \<^verbatim>\<open>fetchTimetable\<close>, and
  \<^verbatim>\<open>isWeekChangeLoading\<close> is false after a \<^verbatim>\<open>changeWeek\<close> that fetched.
\<close>

theorem fetch_errors_become_messages_and_flags_clear:
  "fst (initializeStore net w) = Inr ()
 \<and> isLoading (snd (initializeStore net w)) = False
 \<and> (read_timetable
       (net (timetable_request
              (case cookie_classConfig w of Some c \<Rightarrow> c | None \<Rightarrow> DEFAULT_CONFIG)
              (ascii ''0''))) = Inl err \<longrightarrow>
      error (snd (initializeStore net w)) = Some (load_error_message err))
 \<and> fst (changeWeek net b w) = Inr ()
 \<and> (isNextWeek w \<noteq> b \<longrightarrow> isWeekChangeLoading (snd (changeWeek net b w)) = False)
 \<and> (isNextWeek w \<noteq> b
      \<and> read_timetable (net (timetable_request (classConfig w) (week_param b))) = Inl err \<longrightarrow>
      error (snd (changeWeek net b w)) = Some (load_error_message err))
 \<and> isLoading (snd (fetchTimetable net config w)) = False
 \<and> (read_timetable (net (fetch_query config w)) = Inl err \<longrightarrow>
      fst (fetchTimetable net config w) = Inl err
      \<and> error (snd (fetchTimetable net config w)) = Some (load_error_message err))
 \<and> (read_timetable (net (fetch_query config w)) = Inr data \<longrightarrow>
      fst (fetchTimetable net config w) = Inr ())
 \<and> fst (saveConfig net w) \<noteq> Inl err"
proof -
  have i: "fst (initializeStore net w) = Inr ()
     \<and> isLoading (snd (initializeStore net w)) = False
     \<and> (read_timetable
       (net (timetable_request
              (case cookie_classConfig w of Some c \<Rightarrow> c | None \<Rightarrow> DEFAULT_CONFIG)
              (ascii ''0''))) = Inl err \<longrightarrow>
      error (snd (initializeStore net w)) = Some (load_error_message err))"
    by (simp add: initializeStore_def Let_def split: sum.splits)
  have c1: "fst (changeWeek net b w) = Inr ()"
    by (simp add: changeWeek_def Let_def)
  have c2: "isNextWeek w \<noteq> b \<longrightarrow> isWeekChangeLoading (snd (changeWeek net b w)) = False"
    by (auto simp add: changeWeek_def Let_def)
  have c3: "isNextWeek w \<noteq> b
      \<and> read_timetable (net (timetable_request (classConfig w) (week_param b))) = Inl err \<longrightarrow>
      error (snd (changeWeek net b w)) = Some (load_error_message err)"
    by (auto simp add: changeWeek_failure)
  have f: "isLoading (snd (fetchTimetable net config w)) = False
     \<and> (read_timetable (net (fetch_query config w)) = Inl err \<longrightarrow>
      fst (fetchTimetable net config w) = Inl err
      \<and> error (snd (fetchTimetable net config w)) = Some (load_error_message err))
     \<and> (read_timetable (net (fetch_query config w)) = Inr data \<longrightarrow>
      fst (fetchTimetable net config w) = Inr ())"
    by (cases "read_timetable (net (fetch_query config w))")
       (simp_all add: fetchTimetable_success fetchTimetable_failure)
  have s: "fst (saveConfig net w) \<noteq> Inl err"
    by (simp add: saveConfig_def Let_def split: option.splits prod.splits sum.splits)
  show ?thesis
    using i c1 c2 c3 f s by blast
qed

theorem fetch_errors_become_messages_and_flags_clear_witness:
  "read_timetable
       (net_down (timetable_request
              (case cookie_classConfig lee_world of Some c \<Rightarrow> c | None \<Rightarrow> DEFAULT_CONFIG)
              (ascii ''0''))) = Inl (ErrorObj (ascii ''Failed to fetch''))
   \<and> fst (initializeStore net_down lee_world) = Inr ()
   \<and> isLoading (snd (initializeStore net_down lee_world)) = False
   \<and> error (snd (initializeStore net_down lee_world))
       = Some (msg_load_failed_prefix @ ascii ''Failed to fetch'')
   \<and> isNextWeek lee_world \<noteq> True
   \<and> read_timetable (net_down (timetable_request (classConfig lee_world) (week_param True)))
       = Inl (ErrorObj (ascii ''Failed to fetch''))
   \<and> fst (changeWeek net_down True lee_world) = Inr ()
   \<and> isWeekChangeLoading (snd (changeWeek net_down True lee_world)) = False
   \<and> error (snd (changeWeek net_down True lee_world))
       = Some (msg_load_failed_prefix @ ascii ''Failed to fetch'')
   \<and> read_timetable (net_down (fetch_query None lee_world))
       = Inl (ErrorObj (ascii ''Failed to fetch''))
   \<and> fst (fetchTimetable net_down None lee_world) = Inl (ErrorObj (ascii ''Failed to fetch''))
   \<and> isLoading (snd (fetchTimetable net_down None lee_world)) = False
   \<and> error (snd (fetchTimetable net_down None lee_world))
       = Some (msg_load_failed_prefix @ ascii ''Failed to fetch'')
   \<and> read_timetable (net_ok (snapshot_of math kim) (fetch_query None lee_world))
       = Inr (snapshot_of math kim)
   \<and> fst (fetchTimetable (net_ok (snapshot_of math kim)) None lee_world) = Inr ()
   \<and> isLoading (snd (fetchTimetable (net_ok (snapshot_of math kim)) None lee_world)) = False"
proof -
  let ?e = "ErrorObj (ascii ''Failed to fetch'')"
  let ?cfg = "case cookie_classConfig lee_world of Some c \<Rightarrow> c | None \<Rightarrow> DEFAULT_CONFIG"
  have m: "load_error_message ?e = msg_load_failed_prefix @ ascii ''Failed to fetch''"
    by simp
  have h1: "read_timetable (net_down (timetable_request ?cfg (ascii ''0''))) = Inl ?e"
    by (simp add: net_down_def)
  have h2: "isNextWeek lee_world \<noteq> True"
    by code_simp
  have h3: "read_timetable (net_down (timetable_request (classConfig lee_world) (week_param True)))
       = Inl ?e"
    by (simp add: net_down_def)
  have h4: "read_timetable (net_down (fetch_query None lee_world)) = Inl ?e"
    by (simp add: net_down_def)
  have h5: "read_timetable (net_ok (snapshot_of math kim) (fetch_query None lee_world))
       = Inr (snapshot_of math kim)"
    by (simp add: net_ok_def response_ok_def)
  have a: "fst (initializeStore net_down lee_world) = Inr ()
   \<and> isLoading (snd (initializeStore net_down lee_world)) = False
   \<and> error (snd (initializeStore net_down lee_world))
       = Some (msg_load_failed_prefix @ ascii ''Failed to fetch'')
   \<and> fst (changeWeek net_down True lee_world) = Inr ()
   \<and> isWeekChangeLoading (snd (changeWeek net_down True lee_world)) = False
   \<and> error (snd (changeWeek net_down True lee_world))
       = Some (msg_load_failed_prefix @ ascii ''Failed to fetch'')
   \<and> fst (fetchTimetable net_down None lee_world) = Inl (ErrorObj (ascii ''Failed to fetch''))
   \<and> isLoading (snd (fetchTimetable net_down None lee_world)) = False
   \<and> error (snd (fetchTimetable net_down None lee_world))
       = Some (msg_load_failed_prefix @ ascii ''Failed to fetch'')"
    using fetch_errors_become_messages_and_flags_clear
        [where net = net_down and w = lee_world and b = True and config = None and err = ?e]
      h1 h2 h3 h4 m
    by simp
  have b: "fst (fetchTimetable (net_ok (snapshot_of math kim)) None lee_world) = Inr ()
   \<and> isLoading (snd (fetchTimetable (net_ok (snapshot_of math kim)) None lee_world)) = False"
    using fetch_errors_become_messages_and_flags_clear
        [where net = "net_ok (snapshot_of math kim)" and w = lee_world and config = None
           and data = "snapshot_of math kim"]
      h5
    by simp
  show ?thesis
    using h1 h2 h3 h4 h5 a b by simp
qed

section \<open>The invariant of the override map\<close>

lemma saveTeacherInfo_invariant:
  assumes "override_invariant w"
  shows "override_invariant (saveTeacherInfo s e w)"
proof (cases "Some e \<noteq> defaultInfo (timetableData w) s")
  case True
  then show ?thesis
    using assms
    by (auto simp add: saveTeacherInfo_def override_invariant_def Let_def
          split: option.splits)
next
  case False
  then show ?thesis
    using assms
    by (auto simp add: saveTeacherInfo_def override_invariant_def Let_def
          split: option.splits)
qed

text \<open>No load path writes the override map; start-up reloads it from its cookie.\<close>

lemma fetchTimetable_keeps_override_map:
  "teacherInfo (snd (fetchTimetable net config w)) = teacherInfo w
   \<and> cookie_teacherInfo (snd (fetchTimetable net config w)) = cookie_teacherInfo w"
  by (cases "read_timetable (net (fetch_query config w))")
     (simp_all add: fetchTimetable_success fetchTimetable_failure)

lemma changeWeek_keeps_override_map:
  "teacherInfo (snd (changeWeek net b w)) = teacherInfo w
   \<and> cookie_teacherInfo (snd (changeWeek net b w)) = cookie_teacherInfo w"
proof (cases "isNextWeek w = b")
  case True
  then show ?thesis
    by (simp add: changeWeek_noop)
next
  case False
  then show ?thesis
    by (cases "read_timetable (net (timetable_request (classConfig w) (week_param b)))")
       (simp_all add: changeWeek_success changeWeek_failure)
qed

lemma saveConfig_keeps_override_map:
  "teacherInfo (snd (saveConfig net w)) = teacherInfo w
   \<and> cookie_teacherInfo (snd (saveConfig net w)) = cookie_teacherInfo w"
proof (cases "tempConfig w")
  case None
  then show ?thesis
    by (simp add: saveConfig_nothing_staged)
next
  case (Some tc)
  then show ?thesis
    by (cases "read_timetable (net (timetable_request tc (week_param False)))")
       (simp_all add: saveConfig_success saveConfig_failure)
qed

lemma initializeStore_reloads_override_map:
  "teacherInfo (snd (initializeStore net w))
     = (case cookie_teacherInfo w of Some t \<Rightarrow> t | None \<Rightarrow> fmempty)
   \<and> cookie_teacherInfo (snd (initializeStore net w)) = cookie_teacherInfo w"
  by (cases "read_timetable
               (net (timetable_request
                      (case cookie_classConfig w of Some c \<Rightarrow> c | None \<Rightarrow> DEFAULT_CONFIG)
                      (ascii ''0'')))")
     (simp_all add: initializeStore_def Let_def)

text \<open>
  Claim C2, as amended. The invariant (no override stored under the active class key
  equals the server default of its subject in the loaded snapshot) is preserved by
  \<^verbatim>\<open>saveTeacherInfo\<close>, by the staging operations, and by \<^verbatim>\<open>fetchTimetable\<close>,
  \<^verbatim>\<open>changeWeek\<close> and \<^verbatim>\<open>saveConfig\<close> whenever they load no new snapshot: the call
  is a no-op or returns without a fetch, or its read fails. No load path reconciles the
  map: \<^verbatim>\<open>fetchTimetable\<close>, \<^verbatim>\<open>changeWeek\<close> and \<^verbatim>\<open>saveConfig\<close> leave the override
  map as it was, and \<^verbatim>\<open>initializeStore\<close> replaces it by the map of the cookie.
\<close>

theorem override_invariant_preserved_without_new_snapshot:
  "(override_invariant w \<longrightarrow>
      override_invariant (saveTeacherInfo s e w)
    \<and> override_invariant (setTempConfig c w)
    \<and> override_invariant (resetTempConfig w)
    \<and> override_invariant (setShowConfig b w)
    \<and> (fst (fetchTimetable net config w) = Inl err \<longrightarrow>
         override_invariant (snd (fetchTimetable net config w)))
    \<and> (isNextWeek w = b
         \<or> read_timetable (net (timetable_request (classConfig w) (week_param b))) = Inl err \<longrightarrow>
         override_invariant (snd (changeWeek net b w)))
    \<and> (fst (saveConfig net w) = Inr False \<longrightarrow>
         override_invariant (snd (saveConfig net w))))
   \<and> teacherInfo (snd (fetchTimetable net config w)) = teacherInfo w
   \<and> teacherInfo (snd (changeWeek net b w)) = teacherInfo w
   \<and> teacherInfo (snd (saveConfig net w)) = teacherInfo w
   \<and> teacherInfo (snd (initializeStore net w))
        = (case cookie_teacherInfo w of Some t \<Rightarrow> t | None \<Rightarrow> fmempty)"
proof -
  have f: "fst (fetchTimetable net config w) = Inl err \<longrightarrow>
        override_invariant (snd (fetchTimetable net config w))"
    if inv: "override_invariant w"
    using inv
    by (cases "read_timetable (net (fetch_query config w))")
       (simp_all add: fetchTimetable_success fetchTimetable_failure override_invariant_def)
  have c: "isNextWeek w = b
         \<or> read_timetable (net (timetable_request (classConfig w) (week_param b))) = Inl err \<longrightarrow>
        override_invariant (snd (changeWeek net b w))"
    if inv: "override_invariant w"
    using inv
    by (cases "isNextWeek w = b")
       (auto simp add: changeWeek_noop changeWeek_failure override_invariant_def)
  have s: "fst (saveConfig net w) = Inr False \<longrightarrow> override_invariant (snd (saveConfig net w))"
    if inv: "override_invariant w"
  proof (cases "tempConfig w")
    case None
    then show ?thesis
      using inv by (simp add: saveConfig_nothing_staged)
  next
    case (Some tc)
    then show ?thesis
      using inv
      by (cases "read_timetable (net (timetable_request tc (week_param False)))")
         (simp_all add: saveConfig_success saveConfig_failure override_invariant_def)
  qed
  have t: "override_invariant (setTempConfig c w) \<and> override_invariant (resetTempConfig w)
     \<and> override_invariant (setShowConfig b w)"
    if inv: "override_invariant w"
    using inv
    by (simp add: override_invariant_def setTempConfig_def resetTempConfig_def
          setShowConfig_def)
  have p: "override_invariant w \<longrightarrow>
      override_invariant (saveTeacherInfo s e w)
    \<and> override_invariant (setTempConfig c w)
    \<and> override_invariant (resetTempConfig w)
    \<and> override_invariant (setShowConfig b w)
    \<and> (fst (fetchTimetable net config w) = Inl err \<longrightarrow>
         override_invariant (snd (fetchTimetable net config w)))
    \<and> (isNextWeek w = b
         \<or> read_timetable (net (timetable_request (classConfig w) (week_param b))) = Inl err \<longrightarrow>
         override_invariant (snd (changeWeek net b w)))
    \<and> (fst (saveConfig net w) = Inr False \<longrightarrow>
         override_invariant (snd (saveConfig net w)))"
    using saveTeacherInfo_invariant [of w s e] f c s t by blast
  show ?thesis
    using p fetchTimetable_keeps_override_map [of net config w]
      changeWeek_keeps_override_map [of net b w] saveConfig_keeps_override_map [of net w]
      initializeStore_reloads_override_map [of net w]
    by (intro conjI) (rule p, simp_all)
qed

theorem override_invariant_preserved_without_new_snapshot_witness:
  "override_invariant lee_world
   \<and> override_invariant (saveTeacherInfo math kim lee_world)
   \<and> override_invariant (setTempConfig other_config lee_world)
   \<and> override_invariant (resetTempConfig lee_world)
   \<and> override_invariant (setShowConfig True lee_world)
   \<and> fst (fetchTimetable net_404 None lee_world) = Inl error_404
   \<and> override_invariant (snd (fetchTimetable net_404 None lee_world))
   \<and> read_timetable (net_404 (timetable_request (classConfig lee_world) (week_param True)))
       = Inl error_404
   \<and> override_invariant (snd (changeWeek net_404 True lee_world))
   \<and> isNextWeek lee_world = False
   \<and> override_invariant (snd (changeWeek (net_ok (snapshot_of math lee)) False lee_world))
   \<and> fst (saveConfig net_404 lee_world) = Inr False
   \<and> override_invariant (snd (saveConfig net_404 lee_world))
   \<and> override_invariant staged_world
   \<and> tempConfig staged_world = Some other_config
   \<and> fst (saveConfig net_404 staged_world) = Inr False
   \<and> override_invariant (snd (saveConfig net_404 staged_world))
   \<and> teacherInfo (snd (saveConfig (net_ok (snapshot_of math lee)) staged_world))
       = teacherInfo staged_world"
proof -
  have inv: "override_invariant lee_world"
    by code_simp
  have inv': "override_invariant staged_world"
    by code_simp
  have h1: "fst (fetchTimetable net_404 None lee_world) = Inl error_404"
    by code_simp
  have h2: "read_timetable (net_404 (timetable_request (classConfig lee_world) (week_param True)))
       = Inl error_404"
    by code_simp
  have h3: "fst (saveConfig net_404 lee_world) = Inr False"
    by code_simp
  have h4: "isNextWeek lee_world = False"
    by code_simp
  have h5: "fst (saveConfig net_404 staged_world) = Inr False"
    by code_simp
  have h6: "tempConfig staged_world = Some other_config"
    by (simp add: staged_world_def setTempConfig_def)
  have a: "override_invariant (saveTeacherInfo math kim lee_world)
   \<and> override_invariant (setTempConfig other_config lee_world)
   \<and> override_invariant (resetTempConfig lee_world)
   \<and> override_invariant (setShowConfig True lee_world)
   \<and> override_invariant (snd (fetchTimetable net_404 None lee_world))
   \<and> override_invariant (snd (changeWeek net_404 True lee_world))
   \<and> override_invariant (snd (saveConfig net_404 lee_world))"
    using override_invariant_preserved_without_new_snapshot
        [where w = lee_world and s = math and e = kim and c = other_config and b = True
           and net = net_404 and config = None and err = error_404]
      inv h1 h2 h3
    by simp
  have b: "override_invariant (snd (changeWeek (net_ok (snapshot_of math lee)) False lee_world))"
    using override_invariant_preserved_without_new_snapshot
        [where w = lee_world and b = False and net = "net_ok (snapshot_of math lee)"]
      inv h4
    by simp
  have c: "override_invariant (snd (saveConfig net_404 staged_world))"
    using override_invariant_preserved_without_new_snapshot
        [where w = staged_world and net = net_404]
      inv' h5
    by simp
  have d: "teacherInfo (snd (saveConfig (net_ok (snapshot_of math lee)) staged_world))
       = teacherInfo staged_world"
    using override_invariant_preserved_without_new_snapshot
        [where w = staged_world and net = "net_ok (snapshot_of math lee)"]
    by simp
  show ?thesis
    using inv inv' h1 h2 h3 h4 h5 h6 a b c d by simp
qed

text \<open>
  Claim C2 as stated fails for every operation that loads a snapshot. Start from the
  store in which Lee overrides the default Kim for Math (the invariant holds) and let
  the server now report Lee for Math: after \<^verbatim>\<open>fetchTimetable\<close>, \<^verbatim>\<open>changeWeek\<close>,
  \<^verbatim>\<open>saveConfig\<close> (the same class staged) or \<^verbatim>\<open>initializeStore\<close> the override Lee is
  still stored and equals the default.
\<close>

theorem override_invariant_counterexample:
  "override_invariant lee_world
   \<and> \<not> override_invariant (snd (fetchTimetable (net_ok (snapshot_of math lee)) None lee_world))
   \<and> \<not> override_invariant (snd (changeWeek (net_ok (snapshot_of math lee)) True lee_world))
   \<and> \<not> override_invariant
         (snd (saveConfig (net_ok (snapshot_of math lee))
                 (setTempConfig DEFAULT_CONFIG lee_world)))
   \<and> \<not> override_invariant (snd (initializeStore (net_ok (snapshot_of math lee)) lee_world))
   \<and> stored_override
         (teacherInfo (snd (fetchTimetable (net_ok (snapshot_of math lee)) None lee_world)))
         (configKey (classConfig lee_world)) math
       = defaultInfo
           (timetableData (snd (fetchTimetable (net_ok (snapshot_of math lee)) None lee_world)))
           math"
  by code_simp

section \<open>The teacher-name editor\<close>

text \<open>
  Claim C9. Confirming a save in the editor calls \<^verbatim>\<open>onSave\<close>, once and with the
  entered name, exactly when the name has at most 4 code units; with \<^verbatim>\<open>onSave\<close> bound
  to \<^verbatim>\<open>saveTeacherInfo\<close> of the subject, the store after the handler is the store after
  that write. A longer name sets the validation message and leaves the store untouched.
\<close>

theorem handleSave_calls_store_iff_short:
  "snd (handleSave (\<lambda>info calls. calls @ [info]) p [])
     = (if length (p_teacherInfo p) \<le> 4 then [p_teacherInfo p] else [])
 \<and> (length (p_teacherInfo p) \<le> 4 \<longrightarrow>
      handleSave (saveTeacherInfo subj) p w
        = (p\<lparr>p_isOpen := False, p_error := []\<rparr>, saveTeacherInfo subj (p_teacherInfo p) w))
 \<and> (4 < length (p_teacherInfo p) \<longrightarrow>
      handleSave (saveTeacherInfo subj) p w = (p\<lparr>p_error := msg_name_too_long\<rparr>, w))"
  by (simp add: handleSave_def)

theorem handleSave_calls_store_iff_short_witness:
  "length (p_teacherInfo short_edit) \<le> 4
   \<and> snd (handleSave (\<lambda>info calls. calls @ [info]) short_edit []) = [lee]
   \<and> snd (handleSave (saveTeacherInfo math) short_edit loaded_world) = lee_world
   \<and> 4 < length (p_teacherInfo long_edit)
   \<and> snd (handleSave (\<lambda>info calls. calls @ [info]) long_edit []) = []
   \<and> handleSave (saveTeacherInfo math) long_edit loaded_world
       = (long_edit\<lparr>p_error := msg_name_too_long\<rparr>, loaded_world)"
proof -
  have h1: "length (p_teacherInfo short_edit) \<le> 4"
    by (simp add: short_edit_def lee_def ascii_def)
  have h2: "4 < length (p_teacherInfo long_edit)"
    by (simp add: long_edit_def ascii_def)
  have n: "p_teacherInfo short_edit = lee"
    by (simp add: short_edit_def)
  have a: "snd (handleSave (\<lambda>info calls. calls @ [info]) short_edit []) = [lee]
     \<and> snd (handleSave (saveTeacherInfo math) short_edit loaded_world) = lee_world"
    using handleSave_calls_store_iff_short [where p = short_edit and subj = math and w = loaded_world]
      h1 n
    by (simp add: lee_world_def)
  have b: "snd (handleSave (\<lambda>info calls. calls @ [info]) long_edit []) = []
     \<and> handleSave (saveTeacherInfo math) long_edit loaded_world
       = (long_edit\<lparr>p_error := msg_name_too_long\<rparr>, loaded_world)"
    using handleSave_calls_store_iff_short [where p = long_edit and subj = math and w = loaded_world]
      h2
    by simp
  show ?thesis
    using h1 h2 a b by simp
qed

end
